theory Spec2Isabelle
  imports Complex_Main
begin

section \<open>Data model (lorax\_server/batch/\_\_init\_\_.py)\<close>

text \<open>
  The wire messages of \<^verbatim>\<open>generate_pb2\<close> are generated code outside the source
  tree; each is modelled as a record of the fields that the source sets. Python integers
  are \<^typ>\<open>int\<close>. Field names \<^verbatim>\<open>id\<close>, \<^verbatim>\<open>size\<close> and \<^verbatim>\<open>truncate\<close> carry a
  suffix, since HOL and the record package have constants of these names.
  The sampling parameters \<^verbatim>\<open>temperature\<close>, \<^verbatim>\<open>top_p\<close>, \<^verbatim>\<open>typical_p\<close> and
  \<^verbatim>\<open>repetition_penalty\<close> are single-precision fields: a record holds the value that
  the field stores, as a rational.
\<close>

record next_token_chooser_parameters =
  temperature :: rat
  top_k :: int
  top_p :: rat
  typical_p :: rat
  do_sample :: bool
  seed :: int
  repetition_penalty :: rat
  watermark :: bool
  adapter_id :: string
  schema :: "string option"
  return_k_alternatives :: int

record stopping_criteria_parameters =
  max_new_tokens :: int
  stop_sequences :: "string list"
  ignore_eos_token :: bool

record request =
  id_request :: int
  inputs :: string
  truncate_request :: int
  parameters :: next_token_chooser_parameters
  stopping_parameters :: stopping_criteria_parameters
  adapter_index :: int
  prefill_logprobs :: bool
  apply_chat_template :: bool

text \<open>The dataclass \<^verbatim>\<open>Entry\<close>.\<close>

record entry =
  request :: request
  input_length :: int

text \<open>
  A \<^verbatim>\<open>generate_pb2.Batch\<close> message. Its \<^verbatim>\<open>max_tokens\<close> is an unsigned 32-bit
  field, so a message that exists holds an integer there.
\<close>

record batch =
  id_batch :: int
  size_batch :: int
  requests :: "request list"
  max_tokens :: int

text \<open>
  A Python number is an \<^verbatim>\<open>int\<close> or a \<^verbatim>\<open>float\<close>; the constructor of a message
  treats the two differently. The value of a float is kept as a rational.
\<close>

datatype py_number = PyInt int | PyFloat rat

text \<open>
  The keyword arguments of a call \<^verbatim>\<open>generate_pb2.Batch(id=..., size=..., requests=...,
  max_tokens=...)\<close>, in the order in which lines 286 to 289 and 159 to 162 give them.
\<close>

record batch_kwargs =
  id_kw :: int
  size_kw :: int
  requests_kw :: "request list"
  max_tokens_kw :: py_number

text \<open>
  A \<^verbatim>\<open>Generation\<close>, of which the module reads \<^verbatim>\<open>request_id\<close> and
  \<^verbatim>\<open>generated_text.text\<close> (line 114).
\<close>

record generation =
  request_id :: int
  generated_text :: string

text \<open>\<^verbatim>\<open>generate_pb2.WarmupRequest\<close>, as line 166 builds it.\<close>

record warmup_request =
  batch_warmup :: batch
  max_new_tokens_warmup :: int

text \<open>
  What the list \<^verbatim>\<open>batches\<close> of \<^verbatim>\<open>run\<close> holds. \<^verbatim>\<open>CachedBatch\<close> is an opaque
  handle of the engine, the type variable \<open>'cb\<close>. Line 89 puts a handle in the list;
  line 94 appends the whole value of \<^verbatim>\<open>prefill\<close>, a pair of a handle and a list of
  generations.
\<close>

datatype 'cb active = Handle 'cb | HandleAndGenerations 'cb "generation list"

text \<open>
  The exceptions: the division of lines 258 and 268, the two exceptions of a message
  constructor, and a failed call of the engine. The module catches none of them.
\<close>

datatype error = ZeroDivisionError | TypeError | ValueError | RpcError

text \<open>
  The gRPC stub \<^verbatim>\<open>client\<close>. The engine is outside the module: its three calls used
  here are parameters, functions on an engine state \<open>'s\<close> that either fail or give a
  response and the next engine state.
\<close>

record ('cb, 's) client =
  Prefill :: "batch \<Rightarrow> 's \<Rightarrow> error + (('cb \<times> generation list) \<times> 's)"
  Decode :: "'cb active list \<Rightarrow> 's \<Rightarrow> error + (('cb \<times> generation list) \<times> 's)"
  Warmup :: "warmup_request \<Rightarrow> 's \<Rightarrow> error + (int \<times> 's)"


section \<open>The constructors of the messages\<close>

text \<open>
  Modelled from the spec: the generated module \<^verbatim>\<open>generate_pb2\<close> is not in the source
  tree. Section 6 of the specification gives the wire entities
  \<^verbatim>\<open>Batch{id, size, requests[], max_tokens}\<close> and \<^verbatim>\<open>Request{id, inputs, truncate,
  sampling params, stopping params, ...}\<close>. In the protocol \<^verbatim>\<open>id\<close> is an unsigned
  64-bit field, and \<^verbatim>\<open>size\<close>, \<^verbatim>\<open>max_tokens\<close>, \<^verbatim>\<open>truncate\<close> and
  \<^verbatim>\<open>max_new_tokens\<close> are unsigned 32-bit fields. A constructor sets the fields in the
  order of its keyword arguments and raises \<^verbatim>\<open>ValueError\<close> for an integer out of
  the range of its field and \<^verbatim>\<open>TypeError\<close> for a float given to an integer field,
  whatever its value. The two predicates are the values that the fields accept.
\<close>

definition uint32 :: "int \<Rightarrow> bool" where
  "uint32 n \<longleftrightarrow> 0 \<le> n \<and> n < 2 ^ 32"

definition uint64 :: "int \<Rightarrow> bool" where
  "uint64 n \<longleftrightarrow> 0 \<le> n \<and> n < 2 ^ 64"

text \<open>
  Modelled from the spec: the constructor \<^verbatim>\<open>generate_pb2.Batch\<close>, on the keyword
  arguments \<^verbatim>\<open>id\<close>, \<^verbatim>\<open>size\<close>, \<^verbatim>\<open>requests\<close>, \<^verbatim>\<open>max_tokens\<close> in this order.
\<close>

definition Batch :: "batch_kwargs \<Rightarrow> error + batch" where
  "Batch kw =
     (if \<not> uint64 (id_kw kw) then Inl ValueError
      else if \<not> uint32 (size_kw kw) then Inl ValueError
      else case max_tokens_kw kw of
             PyFloat x \<Rightarrow> Inl TypeError
           | PyInt n \<Rightarrow>
               if uint32 n
               then Inr \<lparr>id_batch = id_kw kw, size_batch = size_kw kw,
                         requests = requests_kw kw, max_tokens = n\<rparr>
               else Inl ValueError)"

text \<open>
  Modelled from the spec: the constructor \<^verbatim>\<open>generate_pb2.WarmupRequest\<close>, of which
  section 6 gives the input \<^verbatim>\<open>synthetic Batch, max_new_tokens\<close>;
  \<^verbatim>\<open>max_new_tokens\<close> is an unsigned 32-bit field.
\<close>

definition WarmupRequest :: "batch \<Rightarrow> int \<Rightarrow> error + warmup_request" where
  "WarmupRequest b max_new_tokens' =
     (if uint32 max_new_tokens'
      then Inr \<lparr>batch_warmup = b, max_new_tokens_warmup = max_new_tokens'\<rparr>
      else Inl ValueError)"

section \<open>Batch admission: \<^verbatim>\<open>next_batch\<close>\<close>


text \<open>
  The expression \<^verbatim>\<open>((n + block_size - 1) / block_size) * block_size\<close> of lines 258
  and 268. The file uses assignment expressions, so it is Python 3 and \<^verbatim>\<open>/\<close> on two
  integers is true division: the value is a float. The model computes with the exact
  rational. It agrees with the double-precision value when \<^verbatim>\<open>block_size\<close> is a small
  power of two (the module's \<^verbatim>\<open>BLOCK_SIZE\<close> is 16) and the operands are below
  \<open>2^53\<close>: the quotient and the product are then exact. For another block size the
  float can differ in the last place, and for integers beyond the range of a float the
  division raises. Every general statement below about these values is therefore made
  under \<open>exact_floats\<close>, which keeps the run inside that range. Division by zero
  is handled in the loop.
\<close>

definition block_cost :: "int \<Rightarrow> int \<Rightarrow> rat" where
  "block_cost n block_size =
     (of_int (n + block_size - 1) / of_int block_size) * of_int block_size"

text \<open>Lines 261 to 267: the \<^verbatim>\<open>max_new_tokens\<close> used for the decode cost.\<close>

definition effective_max_new_tokens :: "int option \<Rightarrow> entry \<Rightarrow> int" where
  "effective_max_new_tokens window_size e =
     (case window_size of
        None \<Rightarrow> max_new_tokens (stopping_parameters (request e))
      | Some w \<Rightarrow> min (w - input_length e) (max_new_tokens (stopping_parameters (request e))))"

text \<open>
  The test of line 270. Python compares an integer and a float by their exact values.
\<close>

definition over_budget :: "int \<Rightarrow> int \<Rightarrow> rat \<Rightarrow> rat \<Rightarrow> bool" where
  "over_budget max_batch_prefill_tokens token_budget prefill_tokens decode_tokens \<longleftrightarrow>
     prefill_tokens > of_int max_batch_prefill_tokens
     \<or> prefill_tokens + decode_tokens > of_int token_budget"

text \<open>
  The \<^verbatim>\<open>while\<close> loop of lines 254 to 276, on the state
  (\<^verbatim>\<open>entries\<close>, \<^verbatim>\<open>batch_requests\<close>, \<^verbatim>\<open>prefill_tokens\<close>, \<^verbatim>\<open>decode_tokens\<close>).
  The first equation is the exit on an empty queue; in the second the first branch is
  the exit on the loop condition, the second the \<^verbatim>\<open>ZeroDivisionError\<close> that line 258
  raises for \<^verbatim>\<open>block_size = 0\<close>, the third the push-back and \<^verbatim>\<open>break\<close> (the head is
  popped and inserted again at index 0, so the queue is as before), and the last the
  \<^verbatim>\<open>append\<close> and the next iteration. The list \<^verbatim>\<open>entries\<close> belongs to the caller:
  an exception leaves it as it is at the raise, here without the head that line 255 has
  popped, and the error carries that queue.
\<close>

fun next_batch_loop ::
  "int \<Rightarrow> int \<Rightarrow> int \<Rightarrow> int option \<Rightarrow> entry list \<Rightarrow> request list \<Rightarrow> rat \<Rightarrow> rat
     \<Rightarrow> (error \<times> entry list) + (entry list \<times> request list \<times> rat \<times> rat)" where
  "next_batch_loop max_batch_prefill_tokens token_budget block_size window_size
       [] batch_requests prefill_tokens decode_tokens =
     Inr ([], batch_requests, prefill_tokens, decode_tokens)"
| "next_batch_loop max_batch_prefill_tokens token_budget block_size window_size
       (e # entries) batch_requests prefill_tokens decode_tokens =
     (if \<not> (prefill_tokens + decode_tokens \<le> of_int token_budget)
      then Inr (e # entries, batch_requests, prefill_tokens, decode_tokens)
      else if block_size = 0 then Inl (ZeroDivisionError, entries)
      else
        let prefill_tokens' = prefill_tokens + block_cost (input_length e) block_size;
            decode_tokens' =
              decode_tokens + block_cost (effective_max_new_tokens window_size e) block_size
        in if over_budget max_batch_prefill_tokens token_budget prefill_tokens' decode_tokens'
           then Inr (e # entries, batch_requests, prefill_tokens', decode_tokens')
           else next_batch_loop max_batch_prefill_tokens token_budget block_size window_size
                  entries (batch_requests @ [request e]) prefill_tokens' decode_tokens')"

text \<open>
  \<^verbatim>\<open>next_batch\<close> up to the call of the constructor in line 285: the loop, the test of
  line 278, the step of \<^verbatim>\<open>_ID\<close> in lines 281 to 283 and the keyword arguments of lines
  286 to 289. The list \<^verbatim>\<open>entries\<close> is mutated in place and \<^verbatim>\<open>_ID\<close> is a module
  global: both are passed in and given back, with the result or with the exception.
  When \<^verbatim>\<open>batch_requests\<close> is not empty the loop body has run, so
  \<^verbatim>\<open>prefill_tokens\<close> and \<^verbatim>\<open>decode_tokens\<close> have been increased by the float of
  lines 258 and 268 and their sum, the argument \<^verbatim>\<open>max_tokens\<close>, is a float.
\<close>

definition next_batch_kwargs ::
  "entry list \<Rightarrow> int \<Rightarrow> int \<Rightarrow> int \<Rightarrow> int option \<Rightarrow> int
     \<Rightarrow> (error \<times> entry list \<times> int) + (batch_kwargs option \<times> entry list \<times> int)" where
  "next_batch_kwargs entries max_batch_prefill_tokens token_budget block_size window_size ID =
     (case next_batch_loop max_batch_prefill_tokens token_budget block_size window_size
             entries [] 0 0 of
        Inl (err, entries') \<Rightarrow> Inl (err, entries', ID)
      | Inr (entries', batch_requests, prefill_tokens, decode_tokens) \<Rightarrow>
          if batch_requests = [] then Inr (None, entries', ID)
          else Inr (Some \<lparr>id_kw = ID,
                          size_kw = int (length batch_requests),
                          requests_kw = batch_requests,
                          max_tokens_kw = PyFloat (prefill_tokens + decode_tokens)\<rparr>,
                    entries', ID + 1))"

text \<open>
  \<^verbatim>\<open>next_batch\<close>: the result is (returned value, queue after the call, \<^verbatim>\<open>_ID\<close>
  after the call), or the exception with the queue and \<^verbatim>\<open>_ID\<close> at the raise.
\<close>

definition next_batch ::
  "entry list \<Rightarrow> int \<Rightarrow> int \<Rightarrow> int \<Rightarrow> int option \<Rightarrow> int
     \<Rightarrow> (error \<times> entry list \<times> int) + (batch option \<times> entry list \<times> int)" where
  "next_batch entries max_batch_prefill_tokens token_budget block_size window_size ID =
     (case next_batch_kwargs entries max_batch_prefill_tokens token_budget block_size
             window_size ID of
        Inl raised \<Rightarrow> Inl raised
      | Inr (None, entries', ID') \<Rightarrow> Inr (None, entries', ID')
      | Inr (Some kw, entries', ID') \<Rightarrow>
          (case Batch kw of
             Inl err \<Rightarrow> Inl (err, entries', ID')
           | Inr b \<Rightarrow> Inr (Some b, entries', ID')))"

text \<open>
  The cost that lines 258 and 268 add to the running totals for one entry, and the sums
  of these costs over a list of entries.
\<close>

definition prefill_cost :: "int \<Rightarrow> entry \<Rightarrow> rat" where
  "prefill_cost block_size e = block_cost (input_length e) block_size"

definition decode_cost :: "int \<Rightarrow> int option \<Rightarrow> entry \<Rightarrow> rat" where
  "decode_cost block_size window_size e =
     block_cost (effective_max_new_tokens window_size e) block_size"

definition total_prefill :: "int \<Rightarrow> entry list \<Rightarrow> rat" where
  "total_prefill block_size es = sum_list (map (prefill_cost block_size) es)"

definition total_decode :: "int \<Rightarrow> int option \<Rightarrow> entry list \<Rightarrow> rat" where
  "total_decode block_size window_size es = sum_list (map (decode_cost block_size window_size) es)"

text \<open>
  The inputs for which every float of a call of \<^verbatim>\<open>next_batch\<close> is exact, so that the
  rationals of the model are the values of the run: the block size is a power of two up
  to 256, the window size, the input lengths and the requested new tokens are at most
  \<open>2^32\<close> in magnitude (the requested new tokens are an unsigned 32-bit field), and the
  queue has at most \<open>2^16\<close> entries. Each cost is then an integer below \<open>2^34\<close> in
  magnitude and every running total an integer below \<open>2^51\<close>.
\<close>

definition exact_floats :: "int \<Rightarrow> int option \<Rightarrow> entry list \<Rightarrow> bool" where
  "exact_floats block_size window_size entries \<longleftrightarrow>
     block_size \<in> {1, 2, 4, 8, 16, 32, 64, 128, 256}
     \<and> length entries \<le> 65536
     \<and> (case window_size of None \<Rightarrow> True | Some W \<Rightarrow> \<bar>W\<bar> \<le> 2 ^ 32)
     \<and> (\<forall>e \<in> set entries.
           \<bar>input_length e\<bar> \<le> 2 ^ 32
           \<and> uint32 (max_new_tokens (stopping_parameters (request e))))"

text \<open>
  \<^verbatim>\<open>create_entry\<close> (lines 202 to 241). \<open>entry_of\<close> is the Entry that the function
  returns when it returns; the arguments are primed where a record field has the same
  name. \<^verbatim>\<open>max_new_tokens\<close> and \<^verbatim>\<open>truncate\<close> are unsigned 32-bit fields, and the
  constructors of lines 228 and 210 raise \<^verbatim>\<open>ValueError\<close> for a value out of range.
\<close>

definition entry_of :: "string \<Rightarrow> int \<Rightarrow> int \<Rightarrow> int \<Rightarrow> entry" where
  "entry_of inputs' input_length' max_input_length max_total_tokens =
     (let effective_max_new_tokens = max_total_tokens - input_length';
          request' = \<lparr>id_request = 0,
                      inputs = inputs',
                      truncate_request = max_input_length,
                      parameters = \<lparr>temperature = 1, top_k = 0, top_p = 1, typical_p = 1,
                                     do_sample = False, seed = 0, repetition_penalty = 1,
                                     watermark = False, adapter_id = [], schema = None,
                                     return_k_alternatives = 0\<rparr>,
                      stopping_parameters = \<lparr>max_new_tokens = effective_max_new_tokens,
                                              stop_sequences = [],
                                              ignore_eos_token = False\<rparr>,
                      adapter_index = 0,
                      prefill_logprobs = True,
                      apply_chat_template = False\<rparr>
      in \<lparr>request = request', input_length = input_length'\<rparr>)"

definition create_entry :: "string \<Rightarrow> int \<Rightarrow> int \<Rightarrow> int \<Rightarrow> error + entry" where
  "create_entry inputs' input_length' max_input_length max_total_tokens =
     (if uint32 (max_total_tokens - input_length') \<and> uint32 max_input_length
      then Inr (entry_of inputs' input_length' max_input_length max_total_tokens)
      else Inl ValueError)"

section \<open>Calibration: \<^verbatim>\<open>warmup\<close>\<close>

text \<open>
  The request that lines 129 to 155 build for a given \<^verbatim>\<open>truncate_length\<close>, when the
  constructors accept the values. The literals \<^verbatim>\<open>0.9\<close> and \<^verbatim>\<open>1.2\<close> go into
  single-precision fields, which store \<open>7549747 / 8388608\<close> and \<open>5033165 / 4194304\<close>.
\<close>

definition dummy_request :: "int \<Rightarrow> int \<Rightarrow> int \<Rightarrow> request" where
  "dummy_request max_input_length max_total_tokens truncate_length =
     \<lparr>id_request = 0,
      inputs = concat (replicate (nat max_input_length) ''_test ''),
      truncate_request = max_input_length,
      parameters = \<lparr>temperature = 7549747 / 8388608, top_k = 10,
                     top_p = 7549747 / 8388608, typical_p = 7549747 / 8388608,
                     do_sample = False, seed = 0, repetition_penalty = 5033165 / 4194304,
                     watermark = True, adapter_id = [], schema = None,
                     return_k_alternatives = 0\<rparr>,
      stopping_parameters = \<lparr>max_new_tokens = max_total_tokens - truncate_length,
                              stop_sequences = [],
                              ignore_eos_token = False\<rparr>,
      adapter_index = 0,
      prefill_logprobs = True,
      apply_chat_template = False\<rparr>"

text \<open>
  The constructor calls of lines 129 to 155: \<^verbatim>\<open>max_new_tokens\<close> and \<^verbatim>\<open>truncate\<close>
  are unsigned 32-bit fields, and a value out of range raises \<^verbatim>\<open>ValueError\<close>.
\<close>

definition new_dummy_request :: "int \<Rightarrow> int \<Rightarrow> int \<Rightarrow> error + request" where
  "new_dummy_request max_input_length max_total_tokens truncate_length =
     (if uint32 (max_total_tokens - truncate_length) \<and> uint32 max_input_length
      then Inr (dummy_request max_input_length max_total_tokens truncate_length)
      else Inl ValueError)"

text \<open>
  The loop of lines 126 to 156 on (\<^verbatim>\<open>n_tokens\<close>, \<^verbatim>\<open>requests\<close>). It does not end
  when \<^verbatim>\<open>max_input_length\<close> is 0 and \<^verbatim>\<open>max_batch_prefill_tokens\<close> is positive:
  not returning is the value \<open>None\<close>.
\<close>

partial_function (option) warmup_loop ::
  "int \<Rightarrow> int \<Rightarrow> int \<Rightarrow> int \<Rightarrow> request list \<Rightarrow> (error + request list) option" where
  "warmup_loop max_input_length max_batch_prefill_tokens max_total_tokens n_tokens reqs =
     (if n_tokens < max_batch_prefill_tokens
      then let truncate_length = min max_input_length (max_batch_prefill_tokens - n_tokens)
           in case new_dummy_request max_input_length max_total_tokens truncate_length of
                Inl err \<Rightarrow> Some (Inl err)
              | Inr r \<Rightarrow>
                  warmup_loop max_input_length max_batch_prefill_tokens max_total_tokens
                    (n_tokens + max_input_length) (reqs @ [r])
      else Some (Inr reqs))"

text \<open>
  \<^verbatim>\<open>warmup\<close>: the requests are wrapped in a Batch (lines 158 to 163, with the integer
  0 as \<^verbatim>\<open>max_tokens\<close>) and sent with one Warmup call, whose
  \<^verbatim>\<open>max_supported_total_tokens\<close> is the result.
\<close>

definition warmup ::
  "('cb, 's) client \<Rightarrow> int \<Rightarrow> int \<Rightarrow> int \<Rightarrow> 's \<Rightarrow> (error + (int \<times> 's)) option" where
  "warmup client max_input_length max_batch_prefill_tokens max_total_tokens s =
     (case warmup_loop max_input_length max_batch_prefill_tokens max_total_tokens 0 [] of
        None \<Rightarrow> None
      | Some (Inl err) \<Rightarrow> Some (Inl err)
      | Some (Inr reqs) \<Rightarrow>
          Some (case Batch \<lparr>id_kw = 0, size_kw = int (length reqs),
                            requests_kw = reqs, max_tokens_kw = PyInt 0\<rparr> of
                  Inl err \<Rightarrow> Inl err
                | Inr b \<Rightarrow>
                    (case WarmupRequest b (max_total_tokens - max_input_length) of
                       Inl err \<Rightarrow> Inl err
                     | Inr req \<Rightarrow> Warmup client req s)))"

section \<open>Output aggregation and the engine calls\<close>

text \<open>
  \<^verbatim>\<open>add_outputs\<close> on the \<^verbatim>\<open>defaultdict(list)\<close>: a key that is absent reads as
  the empty list.
\<close>

fun add_outputs :: "generation list \<Rightarrow> (int \<rightharpoonup> string list) \<Rightarrow> (int \<rightharpoonup> string list)" where
  "add_outputs [] outputs = outputs"
| "add_outputs (generation # generations) outputs =
     add_outputs generations
       (outputs(request_id generation \<mapsto>
          (case outputs (request_id generation) of None \<Rightarrow> [] | Some fragments \<Rightarrow> fragments)
          @ [generated_text generation]))"

definition prefill ::
  "('cb, 's) client \<Rightarrow> batch \<Rightarrow> 's \<Rightarrow> error + (('cb \<times> generation list) \<times> 's)" where
  "prefill client b s = Prefill client b s"


text \<open>
  The body of the inner loop, lines 93 to 95, on (\<^verbatim>\<open>batches\<close>, \<^verbatim>\<open>outputs\<close>, engine
  state). Line 93 binds the whole pair that \<^verbatim>\<open>prefill\<close> returns to
  \<^verbatim>\<open>new_cached_batch\<close>, line 94 appends it, and line 95 merges \<^verbatim>\<open>generations\<close>,
  the variable bound at line 88, which the body does not assign.
\<close>

definition admission_body ::
  "('cb, 's) client \<Rightarrow> generation list \<Rightarrow> batch \<Rightarrow> 'cb active list
     \<Rightarrow> (int \<rightharpoonup> string list) \<Rightarrow> 's
     \<Rightarrow> error + ('cb active list \<times> (int \<rightharpoonup> string list) \<times> 's)" where
  "admission_body client generations new_batch batches outputs s =
     (case prefill client new_batch s of
        Inl err \<Rightarrow> Inl err
      | Inr (new_cached_batch, s') \<Rightarrow>
          Inr (batches @ [HandleAndGenerations (fst new_cached_batch) (snd new_cached_batch)],
               add_outputs generations outputs, s'))"

section \<open>The costs as the specification words them\<close>

text \<open>
  Section 4.1 of the specification: \<^verbatim>\<open>ceil(input_length / block_size) * block_size\<close>,
  the length rounded up to the next multiple of the block size. This definition follows
  the specification, not the source; it is what \<^const>\<open>block_cost\<close> is compared with.
\<close>

definition ceil_block_cost :: "int \<Rightarrow> int \<Rightarrow> int" where
  "ceil_block_cost n block_size = \<lceil>(of_int n :: rat) / of_int block_size\<rceil> * block_size"

text \<open>
  The summed prefill cost of a list of entries, each cost rounded as the specification
  words it.
\<close>

definition ceil_prefill_total :: "int \<Rightarrow> entry list \<Rightarrow> int" where
  "ceil_prefill_total block_size es =
     sum_list (map (\<lambda>e. ceil_block_cost (input_length e) block_size) es)"

text \<open>
  Every entry of the list passes the test of line 270 when the entries are processed in
  order from the running totals \<open>p\<close> and \<open>d\<close>.
\<close>

fun fits_in_order ::
  "int \<Rightarrow> int \<Rightarrow> int \<Rightarrow> int option \<Rightarrow> rat \<Rightarrow> rat \<Rightarrow> entry list \<Rightarrow> bool" where
  "fits_in_order m t b w p d [] = True"
| "fits_in_order m t b w p d (e # es) =
     (\<not> over_budget m t (p + prefill_cost b e) (d + decode_cost b w e)
      \<and> fits_in_order m t b w (p + prefill_cost b e) (d + decode_cost b w e) es)"

text \<open>
  An engine for running the code on concrete inputs: Prefill answers with the id of the
  batch as the handle and one generation whose request id is the id of the batch, Decode
  with handle 0 and no generation, Warmup with 0.
\<close>

definition echo_client :: "(int, unit) client" where
  "echo_client =
     \<lparr>Prefill = (\<lambda>b s. Inr ((id_batch b, [\<lparr>request_id = id_batch b, generated_text = ''t''\<rparr>]), s)),
      Decode = (\<lambda>batches s. Inr ((0, []), s)),
      Warmup = (\<lambda>r s. Inr (0, s))\<rparr>"

section \<open>Facts about the admission loop\<close>

lemma total_prefill_simps:
  "total_prefill b [] = 0"
  "total_prefill b (e # es) = prefill_cost b e + total_prefill b es"
  "total_prefill b (xs @ ys) = total_prefill b xs + total_prefill b ys"
  by (simp_all add: total_prefill_def)

lemma total_decode_simps:
  "total_decode b w [] = 0"
  "total_decode b w (e # es) = decode_cost b w e + total_decode b w es"
  "total_decode b w (xs @ ys) = total_decode b w xs + total_decode b w ys"
  by (simp_all add: total_decode_def)

lemma loop_step:
  "next_batch_loop m t b w (e # es) reqs p d =
     (if \<not> (p + d \<le> of_int t) then Inr (e # es, reqs, p, d)
      else if b = 0 then Inl (ZeroDivisionError, es)
      else if over_budget m t (p + prefill_cost b e) (d + decode_cost b w e)
           then Inr (e # es, reqs, p + prefill_cost b e, d + decode_cost b w e)
           else next_batch_loop m t b w es (reqs @ [request e])
                  (p + prefill_cost b e) (d + decode_cost b w e))"
  by (simp add: Let_def prefill_cost_def decode_cost_def)

declare next_batch_loop.simps(2) [simp del]

lemma loop_post:
  "next_batch_loop m t b w es reqs p d = Inr (rest, reqs', p', d') \<Longrightarrow>
   \<exists>k. k \<le> length es \<and> rest = drop k es \<and> reqs' = reqs @ map request (take k es)
     \<and> (0 < k \<longrightarrow> \<not> over_budget m t (p + total_prefill b (take k es))
                                  (d + total_decode b w (take k es)))
     \<and> ((rest = [] \<and> p' = p + total_prefill b (take k es)
                   \<and> d' = d + total_decode b w (take k es))
        \<or> (rest \<noteq> [] \<and> p' = p + total_prefill b (take (Suc k) es)
                      \<and> d' = d + total_decode b w (take (Suc k) es)
                      \<and> over_budget m t p' d'
                      \<and> p + total_prefill b (take k es) + (d + total_decode b w (take k es)) \<le> of_int t)
        \<or> (rest \<noteq> [] \<and> k = 0 \<and> \<not> p + d \<le> of_int t \<and> p' = p \<and> d' = d))"
proof (induction es arbitrary: reqs p d)
  case Nil
  then show ?case by (simp add: total_prefill_simps total_decode_simps)
next
  case (Cons e es)
  show ?case
  proof (cases "p + d \<le> of_int t")
    case False
    with Cons.prems show ?thesis
      by (intro exI[of _ 0]) (auto simp: loop_step total_prefill_simps total_decode_simps)
  next
    case budget: True
    with Cons.prems have b0: "b \<noteq> 0" by (auto simp: loop_step split: if_splits)
    show ?thesis
    proof (cases "over_budget m t (p + prefill_cost b e) (d + decode_cost b w e)")
      case True
      with Cons.prems budget b0 show ?thesis
        by (intro exI[of _ 0]) (auto simp: loop_step total_prefill_simps total_decode_simps)
    next
      case False
      with Cons.prems budget b0
      have rec: "next_batch_loop m t b w es (reqs @ [request e])
                  (p + prefill_cost b e) (d + decode_cost b w e) = Inr (rest, reqs', p', d')"
        by (simp add: loop_step)
      from Cons.IH[OF rec] obtain k where k: "k \<le> length es" "rest = drop k es"
        "reqs' = (reqs @ [request e]) @ map request (take k es)"
        "0 < k \<longrightarrow> \<not> over_budget m t (p + prefill_cost b e + total_prefill b (take k es))
                                  (d + decode_cost b w e + total_decode b w (take k es))"
        "(rest = [] \<and> p' = p + prefill_cost b e + total_prefill b (take k es)
                   \<and> d' = d + decode_cost b w e + total_decode b w (take k es))
        \<or> (rest \<noteq> [] \<and> p' = p + prefill_cost b e + total_prefill b (take (Suc k) es)
                      \<and> d' = d + decode_cost b w e + total_decode b w (take (Suc k) es)
                      \<and> over_budget m t p' d'
                      \<and> p + prefill_cost b e + total_prefill b (take k es) + (d + decode_cost b w e + total_decode b w (take k es)) \<le> of_int t)
        \<or> (rest \<noteq> [] \<and> k = 0 \<and> \<not> p + prefill_cost b e + (d + decode_cost b w e) \<le> of_int t \<and> p' = p + prefill_cost b e \<and> d' = d + decode_cost b w e)"
        by blast
      from False have fit: "p + prefill_cost b e + (d + decode_cost b w e) \<le> of_int t"
        by (simp add: over_budget_def)
      have nob: "\<not> over_budget m t (p + total_prefill b (take (Suc k) (e # es)))
                                  (d + total_decode b w (take (Suc k) (e # es)))"
      proof (cases "k = 0")
        case True
        with False show ?thesis by (simp add: total_prefill_simps total_decode_simps)
      next
        case False
        with k(4) show ?thesis by (simp add: total_prefill_simps total_decode_simps add.assoc)
      qed
      show ?thesis
        apply (rule exI[of _ "Suc k"])
        using k(1,2,3) k(5) fit nob
        by (auto simp: total_prefill_simps total_decode_simps add.assoc)
    qed
  qed
qed


lemma block_cost_eq: "b \<noteq> 0 \<Longrightarrow> block_cost n b = of_int (n + b - 1)"
  by (simp add: block_cost_def)

lemma ceil_block_cost_div: "ceil_block_cost n b = - ((- n) div b) * b"
  by (simp add: ceil_block_cost_def ceiling_divide_eq_div)

lemma ceil_block_cost_le:
  assumes "0 < b"
  shows "of_int (ceil_block_cost n b) \<le> block_cost n b"
proof -
  have "(- n) div b * b + (- n) mod b = - n" by simp
  moreover have "(- n) mod b < b" using assms by simp
  ultimately have "- ((- n) div b) * b \<le> n + b - 1" by linarith
  then have "ceil_block_cost n b \<le> n + b - 1" by (simp only: ceil_block_cost_div)
  then have "(of_int (ceil_block_cost n b) :: rat) \<le> of_int (n + b - 1)"
    by (simp only: of_int_le_iff)
  with assms show ?thesis by (simp add: block_cost_eq)
qed

lemma loop_returns:
  "b \<noteq> 0 \<Longrightarrow> \<exists>r. next_batch_loop m t b w es reqs p d = Inr r"
  by (induction es arbitrary: reqs p d) (auto simp: loop_step)

lemma loop_reject:
  "p + d \<le> of_int t \<Longrightarrow> b \<noteq> 0 \<Longrightarrow> fits_in_order m t b w p d committed \<Longrightarrow>
   over_budget m t (p + total_prefill b (committed @ [e])) (d + total_decode b w (committed @ [e])) \<Longrightarrow>
   next_batch_loop m t b w (committed @ e # es) reqs p d =
     Inr (e # es, reqs @ map request committed,
          p + total_prefill b (committed @ [e]), d + total_decode b w (committed @ [e]))"
proof (induction committed arbitrary: reqs p d)
  case Nil
  then show ?case by (simp add: loop_step total_prefill_simps total_decode_simps)
next
  case (Cons c cs)
  from Cons.prems(3) have nob: "\<not> over_budget m t (p + prefill_cost b c) (d + decode_cost b w c)"
    and fits: "fits_in_order m t b w (p + prefill_cost b c) (d + decode_cost b w c) cs"
    by simp_all
  from nob have le: "(p + prefill_cost b c) + (d + decode_cost b w c) \<le> of_int t"
    by (simp add: over_budget_def)
  from Cons.prems(4) have ov: "over_budget m t (p + prefill_cost b c + total_prefill b (cs @ [e]))
      (d + decode_cost b w c + total_decode b w (cs @ [e]))"
    by (simp add: total_prefill_simps total_decode_simps add.assoc)
  from Cons.IH[OF le Cons.prems(2) fits ov, of "reqs @ [request c]"] Cons.prems(1,2) nob
  show ?case by (simp add: loop_step total_prefill_simps total_decode_simps add.assoc)
qed

lemma next_batch_kwargs_unfold:
  assumes "next_batch_kwargs es m t b w i = Inr (res, rest, i')"
  shows "\<exists>reqs p d. next_batch_loop m t b w es [] 0 0 = Inr (rest, reqs, p, d)
     \<and> ((reqs = [] \<and> res = None \<and> i' = i)
        \<or> (reqs \<noteq> [] \<and> i' = i + 1
            \<and> (\<exists>bt. res = Some bt \<and> id_kw bt = i \<and> size_kw bt = int (length reqs)
                  \<and> requests_kw bt = reqs \<and> max_tokens_kw bt = PyFloat (p + d))))"
proof (cases "next_batch_loop m t b w es [] 0 0")
  case (Inl err)
  with assms show ?thesis by (simp add: next_batch_kwargs_def split: prod.splits)
next
  case (Inr r)
  obtain rest0 reqs p d where r: "r = (rest0, reqs, p, d)" by (cases r) 
  show ?thesis
  proof (cases "reqs = []")
    case True
    with assms Inr r show ?thesis by (simp add: next_batch_kwargs_def)
  next
    case False
    with assms Inr r show ?thesis by (auto simp: next_batch_kwargs_def)
  qed
qed


lemma next_batch_kwargs_Some:
  assumes "next_batch_kwargs es m t b w i = Inr (Some bt, rest, i')"
  shows "\<exists>k. 0 < k \<and> k \<le> length es \<and> rest = drop k es \<and> i' = i + 1
     \<and> \<not> over_budget m t (total_prefill b (take k es)) (total_decode b w (take k es))
     \<and> (rest \<noteq> [] \<longrightarrow> over_budget m t (total_prefill b (take (Suc k) es))
                                      (total_decode b w (take (Suc k) es)))
     \<and> id_kw bt = i \<and> size_kw bt = int k
     \<and> requests_kw bt = map request (take k es)
     \<and> max_tokens_kw bt = PyFloat (total_prefill b (take (if rest = [] then k else Suc k) es)
                      + total_decode b w (take (if rest = [] then k else Suc k) es))"
proof -
  from next_batch_kwargs_unfold[OF assms] obtain reqs p d where
    loop: "next_batch_loop m t b w es [] 0 0 = Inr (rest, reqs, p, d)"
    and ne: "reqs \<noteq> []" and i: "i' = i + 1"
    and bt: "id_kw bt = i" "size_kw bt = int (length reqs)" "requests_kw bt = reqs"
            "max_tokens_kw bt = PyFloat (p + d)"
    by auto
  from loop_post[OF loop] obtain k where k: "k \<le> length es" "rest = drop k es"
    "reqs = [] @ map request (take k es)"
    "0 < k \<longrightarrow> \<not> over_budget m t (0 + total_prefill b (take k es))
                                  (0 + total_decode b w (take k es))"
    "(rest = [] \<and> p = 0 + total_prefill b (take k es)
                \<and> d = 0 + total_decode b w (take k es))
     \<or> (rest \<noteq> [] \<and> p = 0 + total_prefill b (take (Suc k) es)
                   \<and> d = 0 + total_decode b w (take (Suc k) es)
                   \<and> over_budget m t p d
                   \<and> 0 + total_prefill b (take k es) + (0 + total_decode b w (take k es)) \<le> of_int t)
     \<or> (rest \<noteq> [] \<and> k = 0 \<and> \<not> (0::rat) + 0 \<le> of_int t \<and> p = 0 \<and> d = 0)"
    by blast
  from ne k(3) have kpos: "0 < k" by (cases k) auto
  from k(1,3) have len: "length reqs = k" by simp
  from kpos k(5) have tot: "(rest = [] \<and> p = total_prefill b (take k es)
                \<and> d = total_decode b w (take k es))
     \<or> (rest \<noteq> [] \<and> p = total_prefill b (take (Suc k) es)
                   \<and> d = total_decode b w (take (Suc k) es)
                   \<and> over_budget m t p d)" by auto
  show ?thesis
  proof (intro exI[of _ k] conjI)
    show "0 < k" by (rule kpos)
    show "k \<le> length es" by (rule k(1))
    show "rest = drop k es" by (rule k(2))
    show "i' = i + 1" by (rule i)
    show "\<not> over_budget m t (total_prefill b (take k es)) (total_decode b w (take k es))"
      using k(4) kpos by simp
    show "rest \<noteq> [] \<longrightarrow> over_budget m t (total_prefill b (take (Suc k) es))
                                      (total_decode b w (take (Suc k) es))"
      using tot by auto
    show "id_kw bt = i" by (rule bt(1))
    show "size_kw bt = int k" using bt(2) len by simp
    show "requests_kw bt = map request (take k es)" using bt(3) k(3) by simp
    show "max_tokens_kw bt = PyFloat (total_prefill b (take (if rest = [] then k else Suc k) es)
                      + total_decode b w (take (if rest = [] then k else Suc k) es))"
      using bt(4) tot by auto
  qed
qed

lemma next_batch_kwargs_returns:
  assumes "b \<noteq> 0"
  shows "\<exists>res rest i'. next_batch_kwargs es m t b w i = Inr (res, rest, i')"
proof -
  from loop_returns[OF assms] obtain r where
    "next_batch_loop m t b w es [] 0 0 = Inr r" by blast
  then show ?thesis by (cases r) (simp add: next_batch_kwargs_def)
qed






lemma ceil_prefill_total_le:
  "0 < b \<Longrightarrow> of_int (ceil_prefill_total b es) \<le> total_prefill b es"
proof (induction es)
  case Nil
  show ?case by (simp add: ceil_prefill_total_def total_prefill_simps)
next
  case (Cons e es)
  have "of_int (ceil_block_cost (input_length e) b) \<le> prefill_cost b e"
    unfolding prefill_cost_def using Cons.prems by (rule ceil_block_cost_le)
  moreover have "ceil_prefill_total b (e # es)
      = ceil_block_cost (input_length e) b + ceil_prefill_total b es"
    by (simp add: ceil_prefill_total_def)
  ultimately show ?case using Cons.IH[OF Cons.prems]
    by (simp add: total_prefill_simps)
qed



lemma eval_kwargs_two_entries:
  "next_batch_kwargs [entry_of ''a'' 1 16 2, entry_of ''b'' 1 16 2] 40 40 16 None 0
   = Inr (Some \<lparr>id_kw = 0, size_kw = 1, requests_kw = [request (entry_of ''a'' 1 16 2)],
                 max_tokens_kw = PyFloat 64\<rparr>, [entry_of ''b'' 1 16 2], 1)"
  by (simp add: next_batch_kwargs_def loop_step prefill_cost_def decode_cost_def block_cost_def
      effective_max_new_tokens_def over_budget_def entry_of_def)

lemma exact_two_entries:
  "exact_floats 16 None [entry_of ''a'' 1 16 2, entry_of ''b'' 1 16 2]"
  by (simp add: exact_floats_def entry_of_def uint32_def)


text \<open>
  Under \<^const>\<open>exact_floats\<close> every cost is an integer below \<open>2^34\<close> in magnitude, and
  the totals over any part of the queue are integers of at most \<open>2^50\<close> in magnitude:
  every sum that the loop forms is below \<open>2^53\<close>.
\<close>

lemma exact_floats_block_size: "exact_floats b w es \<Longrightarrow> 0 < b"
  by (auto simp: exact_floats_def)

lemma exact_floats_length: "exact_floats b w es \<Longrightarrow> length es \<le> 65536"
  by (simp add: exact_floats_def)

lemma effective_bound:
  assumes "exact_floats b w es" and "e \<in> set es"
  shows "\<bar>effective_max_new_tokens w e\<bar> \<le> 2 ^ 33"
proof -
  from assms have L: "\<bar>input_length e\<bar> \<le> 2 ^ 32"
    and M: "0 \<le> max_new_tokens (stopping_parameters (request e))"
           "max_new_tokens (stopping_parameters (request e)) < 2 ^ 32"
    by (auto simp: exact_floats_def uint32_def)
  show ?thesis
  proof (cases w)
    case None
    with M show ?thesis by (simp add: effective_max_new_tokens_def)
  next
    case (Some W)
    with assms(1) have "\<bar>W\<bar> \<le> 2 ^ 32" by (simp add: exact_floats_def)
    with L M Some show ?thesis by (auto simp: effective_max_new_tokens_def min_def)
  qed
qed

lemma exact_floats_costs:
  assumes "exact_floats b w es" and "e \<in> set es"
  shows "prefill_cost b e = of_int (input_length e + b - 1)"
    and "decode_cost b w e = of_int (effective_max_new_tokens w e + b - 1)"
    and "\<bar>input_length e + b - 1\<bar> < 2 ^ 34"
    and "\<bar>effective_max_new_tokens w e + b - 1\<bar> < 2 ^ 34"
proof -
  from assms(1) have b: "0 < b" "b \<le> 256" by (auto simp: exact_floats_def)
  then have b0: "b \<noteq> 0" by simp
  from assms have L: "\<bar>input_length e\<bar> \<le> 2 ^ 32" by (simp add: exact_floats_def)
  show "prefill_cost b e = of_int (input_length e + b - 1)"
    by (simp add: prefill_cost_def block_cost_eq[OF b0])
  show "decode_cost b w e = of_int (effective_max_new_tokens w e + b - 1)"
    by (simp add: decode_cost_def block_cost_eq[OF b0])
  from L b show "\<bar>input_length e + b - 1\<bar> < 2 ^ 34" by simp
  from effective_bound[OF assms] b show "\<bar>effective_max_new_tokens w e + b - 1\<bar> < 2 ^ 34"
    by simp
qed

lemma exact_floats_totals_int:
  assumes "exact_floats b w es" and "set xs \<subseteq> set es"
  shows "\<exists>p d. total_prefill b xs = of_int p \<and> total_decode b w xs = of_int d
           \<and> \<bar>p\<bar> \<le> int (length xs) * 2 ^ 34 \<and> \<bar>d\<bar> \<le> int (length xs) * 2 ^ 34"
  using assms(2)
proof (induction xs)
  case Nil
  show ?case by (simp add: total_prefill_simps total_decode_simps)
next
  case (Cons x xs)
  then have x: "x \<in> set es" and xs: "set xs \<subseteq> set es" by simp_all
  from Cons.IH[OF xs] obtain p d where pd: "total_prefill b xs = of_int p"
    "total_decode b w xs = of_int d"
    "\<bar>p\<bar> \<le> int (length xs) * 2 ^ 34" "\<bar>d\<bar> \<le> int (length xs) * 2 ^ 34"
    by blast
  note c = exact_floats_costs[OF assms(1) x]
  have "total_prefill b (x # xs) = of_int (input_length x + b - 1 + p)"
    using c(1) pd(1) by (simp add: total_prefill_simps)
  moreover have "total_decode b w (x # xs) = of_int (effective_max_new_tokens w x + b - 1 + d)"
    using c(2) pd(2) by (simp add: total_decode_simps)
  moreover have "\<bar>input_length x + b - 1 + p\<bar> \<le> int (length (x # xs)) * 2 ^ 34"
    using c(3) pd(3) by simp
  moreover have "\<bar>effective_max_new_tokens w x + b - 1 + d\<bar> \<le> int (length (x # xs)) * 2 ^ 34"
    using c(4) pd(4) by simp
  ultimately show ?case by blast
qed

lemma exact_floats_totals:
  assumes "exact_floats b w es"
  shows "\<exists>p d. total_prefill b (take k es) = of_int p \<and> total_decode b w (take k es) = of_int d
           \<and> \<bar>p\<bar> \<le> 2 ^ 50 \<and> \<bar>d\<bar> \<le> 2 ^ 50"
proof -
  have "set (take k es) \<subseteq> set es" by (rule set_take_subset)
  from exact_floats_totals_int[OF assms this] obtain p d where pd:
    "total_prefill b (take k es) = of_int p" "total_decode b w (take k es) = of_int d"
    "\<bar>p\<bar> \<le> int (length (take k es)) * 2 ^ 34" "\<bar>d\<bar> \<le> int (length (take k es)) * 2 ^ 34"
    by blast
  from exact_floats_length[OF assms] have "int (length (take k es)) \<le> 65536" by simp
  then have "int (length (take k es)) * 2 ^ 34 \<le> (2 ^ 50 :: int)" by simp
  with pd show ?thesis by (intro exI[of _ p] exI[of _ d]) simp
qed

lemma new_dummy_request_ok:
  assumes "1 \<le> mil" and "mil \<le> mtt" and "mtt < 2 ^ 32" and "n < mbpt"
  shows "new_dummy_request mil mtt (min mil (mbpt - n))
           = Inr (dummy_request mil mtt (min mil (mbpt - n)))"
proof -
  from assms have "1 \<le> min mil (mbpt - n)" "min mil (mbpt - n) \<le> mil" by simp_all
  with assms have "uint32 (mtt - min mil (mbpt - n))" "uint32 mil"
    unfolding uint32_def by linarith+
  then show ?thesis by (simp add: new_dummy_request_def)
qed

lemma warmup_loop_eq:
  assumes "1 \<le> mil" and "mil \<le> mtt" and "mtt < 2 ^ 32"
  shows "nat \<lceil>(of_int (mbpt - n) :: rat) / of_int mil\<rceil> = k \<Longrightarrow>
    warmup_loop mil mbpt mtt n reqs =
      Some (Inr (reqs @ map (\<lambda>i. dummy_request mil mtt (min mil (mbpt - (n + int i * mil))))
                         [0..<k]))"
proof (induction k arbitrary: n reqs)
  case 0
  have pos: "(0::rat) < of_int mil" using assms by simp
  from 0 have "\<lceil>(of_int (mbpt - n) :: rat) / of_int mil\<rceil> \<le> 0" by simp
  then have "(of_int (mbpt - n) :: rat) / of_int mil \<le> 0" by (simp add: ceiling_le_iff)
  with pos have "(of_int (mbpt - n) :: rat) \<le> 0" by (simp add: divide_le_0_iff)
  then have "\<not> n < mbpt" by simp
  then show ?case by (subst warmup_loop.simps) simp
next
  case (Suc k)
  have pos: "(0::rat) < of_int mil" using assms by simp
  from Suc.prems have "0 < \<lceil>(of_int (mbpt - n) :: rat) / of_int mil\<rceil>" by linarith
  then have "0 < (of_int (mbpt - n) :: rat) / of_int mil" by (simp add: less_ceiling_iff)
  with pos have "(0::rat) < of_int (mbpt - n)" by (simp add: zero_less_divide_iff)
  then have lt: "n < mbpt" by simp
  have "(of_int (mbpt - (n + mil)) :: rat) / of_int mil = of_int (mbpt - n) / of_int mil - 1"
    using pos by (simp add: field_simps)
  then have "\<lceil>(of_int (mbpt - (n + mil)) :: rat) / of_int mil\<rceil>
       = \<lceil>(of_int (mbpt - n) :: rat) / of_int mil\<rceil> - 1"
    by (simp only: ceiling_diff_one)
  with Suc.prems have k: "nat \<lceil>(of_int (mbpt - (n + mil)) :: rat) / of_int mil\<rceil> = k" by simp
  have shift: "map (\<lambda>i. dummy_request mil mtt (min mil (mbpt - (n + int i * mil)))) [0..<Suc k]
      = dummy_request mil mtt (min mil (mbpt - n))
        # map (\<lambda>i. dummy_request mil mtt (min mil (mbpt - (n + mil + int i * mil)))) [0..<k]"
    unfolding map_upt_Suc by (simp add: algebra_simps)
  note ok = new_dummy_request_ok[OF assms lt]
  from lt Suc.IH[OF k, of "reqs @ [dummy_request mil mtt (min mil (mbpt - n))]"]
  show ?case by (subst warmup_loop.simps) (simp add: shift ok Let_def del: upt_Suc)
qed


section \<open>The continuous-batching loop of \<^verbatim>\<open>run\<close>\<close>






section \<open>Facts about the concrete inputs used below\<close>

lemma exact_three_entries:
  "exact_floats 16 None
     ([entry_of ''a'' 1 16 2] @ entry_of ''b'' 1 16 2 # [entry_of ''c'' 1 16 2])"
  by (simp add: exact_floats_def entry_of_def uint32_def)

lemma fits_one:
  "fits_in_order 40 40 16 None 0 0 [entry_of ''a'' 1 16 2]"
  by (simp add: prefill_cost_def decode_cost_def block_cost_def
      effective_max_new_tokens_def over_budget_def entry_of_def)

lemma over_two:
  "over_budget 40 40 (total_prefill 16 ([entry_of ''a'' 1 16 2] @ [entry_of ''b'' 1 16 2]))
      (total_decode 16 None ([entry_of ''a'' 1 16 2] @ [entry_of ''b'' 1 16 2]))"
  by (simp add: total_prefill_simps total_decode_simps prefill_cost_def decode_cost_def block_cost_def
      effective_max_new_tokens_def over_budget_def entry_of_def)

lemma total_decode_closed:
  assumes "b \<noteq> 0"
  shows "total_decode b w xs =
     sum_list (map (\<lambda>e. of_int
       ((case w of
           None \<Rightarrow> max_new_tokens (stopping_parameters (request e))
         | Some W \<Rightarrow> min (W - input_length e)
                        (max_new_tokens (stopping_parameters (request e))))
        + b - 1)) xs)"
proof -
  have "decode_cost b w = (\<lambda>e. of_int
       ((case w of
           None \<Rightarrow> max_new_tokens (stopping_parameters (request e))
         | Some W \<Rightarrow> min (W - input_length e)
                        (max_new_tokens (stopping_parameters (request e))))
        + b - 1))"
    by (rule ext) (simp add: decode_cost_def block_cost_eq[OF assms]
        effective_max_new_tokens_def)
  then show ?thesis by (simp only: total_decode_def)
qed

lemma exact_window_entry: "exact_floats 16 (Some 10) [entry_of ''ab'' 2 16 22]"
  by (simp add: exact_floats_def entry_of_def uint32_def)

lemma eval_window_entry:
  "next_batch_loop 100 100 16 (Some 10) [entry_of ''ab'' 2 16 22] [] 0 0
     = Inr ([], [request (entry_of ''ab'' 2 16 22)], 17, 23)"
  by (simp add: loop_step prefill_cost_def decode_cost_def block_cost_def
      effective_max_new_tokens_def over_budget_def entry_of_def)



lemma warmup_count_bound:
  assumes "1 \<le> mil" and "1 \<le> mbpt"
  shows "0 < \<lceil>(of_int mbpt :: rat) / of_int mil\<rceil>"
    and "\<lceil>(of_int mbpt :: rat) / of_int mil\<rceil> \<le> mbpt"
proof -
  have "(0::rat) < of_int mbpt / of_int mil" using assms by simp
  then show "0 < \<lceil>(of_int mbpt :: rat) / of_int mil\<rceil>" by (simp add: less_ceiling_iff)
  have "(of_int mbpt :: rat) / of_int mil \<le> of_int mbpt / 1"
    using assms by (intro divide_left_mono) simp_all
  then have "(of_int mbpt :: rat) / of_int mil \<le> of_int mbpt" by simp
  then show "\<lceil>(of_int mbpt :: rat) / of_int mil\<rceil> \<le> mbpt" by (simp add: ceiling_le_iff)
qed

section \<open>The claims\<close>

text \<open>
  C1. The claim: for every admitted entry the prefill cost added to the running total is
  \<open>ceil(input_length / block_size) * block_size\<close> and the decode cost added is
  \<open>ceil(effective_max_new / block_size) * block_size\<close>. The code adds
  \<open>((n + block_size - 1) / block_size) * block_size\<close> with true division, which is
  \<open>n + block_size - 1\<close>: for the entry that \<^verbatim>\<open>create_entry\<close> builds for input
  length 2 and 2 new tokens, with block size 16, the loop ends with both totals at 17,
  where the rounded costs are 16 and 16.
\<close>

theorem next_batch_loop_cost_not_rounded:
  "create_entry ''ab'' 2 16 4 = Inr (entry_of ''ab'' 2 16 4)
   \<and> next_batch_loop 1024 1024 16 None [entry_of ''ab'' 2 16 4] [] 0 0
     = Inr ([], [request (entry_of ''ab'' 2 16 4)], 17, 17)
   \<and> ceil_block_cost (input_length (entry_of ''ab'' 2 16 4)) 16 = 16
   \<and> ceil_block_cost (max_new_tokens (stopping_parameters (request (entry_of ''ab'' 2 16 4)))) 16 = 16"
  by (simp add: loop_step prefill_cost_def decode_cost_def block_cost_def
      effective_max_new_tokens_def over_budget_def entry_of_def create_entry_def uint32_def
      ceil_block_cost_div)




text \<open>
  C3. The claim: for every batch admitted after the first, the handle returned by its
  Prefill call, and only the handle, is appended to the active list, and the generations
  of that same call are merged into the outputs. The body of the inner loop, given the
  generations of the first call (request id 0), the active list with the first handle and
  a second batch with id 1: line 93 binds the whole pair returned by \<^verbatim>\<open>prefill\<close>,
  line 94 appends the pair, and line 95 merges \<^verbatim>\<open>generations\<close>, still the list of
  the first call. The fragment of request id 0 is recorded twice and the generation of the
  second call (request id 1) never. Line 88 unpacks the pair as the claim says.
\<close>

theorem admission_body_misroutes_prefill:
  "admission_body echo_client [\<lparr>request_id = 0, generated_text = ''t''\<rparr>]
     \<lparr>id_batch = 1, size_batch = 1, requests = [request (entry_of ''b'' 1 16 2)],
      max_tokens = 32\<rparr>
     [Handle 0] [0 \<mapsto> [''t'']] ()
   = Inr ([Handle 0, HandleAndGenerations 1 [\<lparr>request_id = 1, generated_text = ''t''\<rparr>]],
          [0 \<mapsto> [''t'', ''t'']], ())"
  by (simp add: admission_body_def prefill_def echo_client_def)




text \<open>
  C5. Whenever \<^verbatim>\<open>next_batch\<close> builds a Batch, the summed prefill cost of its member
  entries is at most \<^verbatim>\<open>max_batch_prefill_tokens\<close>, both for the costs as the loop adds
  them and for the costs rounded up to a multiple of the block size. The members are the
  entries whose requests line 288 gives the constructor; the statement holds for every
  queue and all limits, with the block size, the window and the lengths in the range where
  the floats are exact. No call returns a Batch whose members exceed the limit, since a
  returned Batch is one that was built.
\<close>

theorem next_batch_kwargs_prefill_within_limit:
  assumes "exact_floats block_size window_size entries"
    and "next_batch_kwargs entries max_batch_prefill_tokens token_budget block_size
           window_size ID = Inr (Some kw, rest, ID')"
  shows "\<exists>members. entries = members @ rest \<and> requests_kw kw = map request members
     \<and> total_prefill block_size members \<le> of_int max_batch_prefill_tokens
     \<and> ceil_prefill_total block_size members \<le> max_batch_prefill_tokens"
proof -
  from next_batch_kwargs_Some[OF assms(2)] obtain k where k: "rest = drop k entries"
    "requests_kw kw = map request (take k entries)"
    "\<not> over_budget max_batch_prefill_tokens token_budget
         (total_prefill block_size (take k entries))
         (total_decode block_size window_size (take k entries))"
    by blast
  have split: "entries = take k entries @ rest" using k(1) by simp
  from k(3) have le: "total_prefill block_size (take k entries) \<le> of_int max_batch_prefill_tokens"
    by (simp add: over_budget_def)
  from exact_floats_block_size[OF assms(1)] have "0 < block_size" .
  from ceil_prefill_total_le[OF this, of "take k entries"] le
  have "(of_int (ceil_prefill_total block_size (take k entries)) :: rat)
          \<le> of_int max_batch_prefill_tokens" by (rule order_trans)
  then have "ceil_prefill_total block_size (take k entries) \<le> max_batch_prefill_tokens"
    by (simp only: of_int_le_iff)
  with split k(2) le show ?thesis by blast
qed

theorem next_batch_kwargs_prefill_within_limit_witness:
  "exact_floats 16 None [entry_of ''a'' 1 16 2, entry_of ''b'' 1 16 2]
   \<and> next_batch_kwargs [entry_of ''a'' 1 16 2, entry_of ''b'' 1 16 2] 40 40 16 None 0
     = Inr (Some \<lparr>id_kw = 0, size_kw = 1, requests_kw = [request (entry_of ''a'' 1 16 2)],
                   max_tokens_kw = PyFloat 64\<rparr>, [entry_of ''b'' 1 16 2], 1)
   \<and> (\<exists>members. [entry_of ''a'' 1 16 2, entry_of ''b'' 1 16 2]
          = members @ [entry_of ''b'' 1 16 2]
        \<and> [request (entry_of ''a'' 1 16 2)] = map request members
        \<and> total_prefill 16 members \<le> 40
        \<and> ceil_prefill_total 16 members \<le> 40)"
  using next_batch_kwargs_prefill_within_limit[OF exact_two_entries eval_kwargs_two_entries]
    exact_two_entries eval_kwargs_two_entries
  by simp

text \<open>
  C6. The claim: a non-empty queue whose total rounded cost is at most
  \<^verbatim>\<open>token_budget\<close> and whose summed prefill cost fits
  \<^verbatim>\<open>max_batch_prefill_tokens\<close> is admitted whole by one call. One entry of input
  length 2 and 2 new tokens has rounded costs 16 and 16, which fit a prefill limit of 16
  and a budget of 32; the code computes 17 and 17, pushes the entry back and returns
  \<^verbatim>\<open>None\<close>.
\<close>

theorem next_batch_rejects_fitting_entry:
  "create_entry ''ab'' 2 16 4 = Inr (entry_of ''ab'' 2 16 4)
   \<and> next_batch [entry_of ''ab'' 2 16 4] 16 32 16 None 0
     = Inr (None, [entry_of ''ab'' 2 16 4], 0)
   \<and> ceil_block_cost (input_length (entry_of ''ab'' 2 16 4)) 16 \<le> 16
   \<and> ceil_block_cost (input_length (entry_of ''ab'' 2 16 4)) 16
     + ceil_block_cost (max_new_tokens (stopping_parameters (request (entry_of ''ab'' 2 16 4)))) 16
     \<le> 32"
  by (simp add: next_batch_def next_batch_kwargs_def loop_step prefill_cost_def decode_cost_def
      block_cost_def effective_max_new_tokens_def over_budget_def entry_of_def create_entry_def
      uint32_def ceil_block_cost_div)

text \<open>
  C7. When the loop rejects an entry, the entry is put back at the front and the loop
  stops: if the entries of \<open>committed\<close> pass the test of line 270 one after the other,
  and the next entry \<open>e\<close> fails it, then the call leaves the queue \<open>e # entries\<close>, that
  is the original queue without the committed entries, in the original order. The call
  returns \<^verbatim>\<open>None\<close> when nothing was committed and otherwise ends in the
  \<^verbatim>\<open>TypeError\<close> of the constructor, with the queue in that state. The budget is not
  negative, since otherwise the loop pops no entry at all.
\<close>

theorem next_batch_requeues_rejected_entry:
  assumes "exact_floats block_size window_size (committed @ e # entries)"
    and "0 \<le> token_budget" and "uint64 ID"
    and "fits_in_order max_batch_prefill_tokens token_budget block_size window_size 0 0 committed"
    and "over_budget max_batch_prefill_tokens token_budget
           (total_prefill block_size (committed @ [e]))
           (total_decode block_size window_size (committed @ [e]))"
  shows "next_batch (committed @ e # entries) max_batch_prefill_tokens token_budget block_size
           window_size ID =
         (if committed = [] then Inr (None, e # entries, ID)
          else Inl (TypeError, e # entries, ID + 1))"
proof -
  from exact_floats_block_size[OF assms(1)] have b0: "block_size \<noteq> 0" by simp
  from assms(2) have le: "(0::rat) + 0 \<le> of_int token_budget" by simp
  from assms(5) have ov: "over_budget max_batch_prefill_tokens token_budget
           (0 + total_prefill block_size (committed @ [e]))
           (0 + total_decode block_size window_size (committed @ [e]))" by simp
  from loop_reject[OF le b0 assms(4) ov, of entries "[]"]
  have loop: "next_batch_loop max_batch_prefill_tokens token_budget block_size window_size
       (committed @ e # entries) [] 0 0 =
     Inr (e # entries, map request committed,
          total_prefill block_size (committed @ [e]),
          total_decode block_size window_size (committed @ [e]))" by simp
  show ?thesis
  proof (cases "committed = []")
    case True
    with loop show ?thesis by (simp add: next_batch_def next_batch_kwargs_def)
  next
    case False
    from exact_floats_length[OF assms(1)] have "int (length committed) < 2 ^ 32" by simp
    then have size: "uint32 (int (length committed))" by (simp add: uint32_def)
    have "Batch \<lparr>id_kw = ID, size_kw = int (length committed),
                 requests_kw = map request committed,
                 max_tokens_kw = PyFloat (total_prefill block_size (committed @ [e])
                   + total_decode block_size window_size (committed @ [e]))\<rparr> = Inl TypeError"
      using assms(3) size by (simp add: Batch_def)
    with loop False show ?thesis by (simp add: next_batch_def next_batch_kwargs_def)
  qed
qed

theorem next_batch_requeues_rejected_entry_witness:
  "exact_floats 16 None
     ([entry_of ''a'' 1 16 2] @ entry_of ''b'' 1 16 2 # [entry_of ''c'' 1 16 2])
   \<and> (0::int) \<le> 40 \<and> uint64 7
   \<and> fits_in_order 40 40 16 None 0 0 [entry_of ''a'' 1 16 2]
   \<and> over_budget 40 40
        (total_prefill 16 ([entry_of ''a'' 1 16 2] @ [entry_of ''b'' 1 16 2]))
        (total_decode 16 None ([entry_of ''a'' 1 16 2] @ [entry_of ''b'' 1 16 2]))
   \<and> next_batch ([entry_of ''a'' 1 16 2] @ entry_of ''b'' 1 16 2 # [entry_of ''c'' 1 16 2])
        40 40 16 None 7
      = Inl (TypeError, entry_of ''b'' 1 16 2 # [entry_of ''c'' 1 16 2], 8)"
proof -
  have h2: "(0::int) \<le> 40" and h3: "uint64 7" by (simp_all add: uint64_def)
  from next_batch_requeues_rejected_entry[OF exact_three_entries h2 h3 fits_one over_two]
  have "next_batch ([entry_of ''a'' 1 16 2] @ entry_of ''b'' 1 16 2 # [entry_of ''c'' 1 16 2])
        40 40 16 None 7
      = Inl (TypeError, entry_of ''b'' 1 16 2 # [entry_of ''c'' 1 16 2], 8)"
    by simp
  with exact_three_entries h2 h3 fits_one over_two show ?thesis by (intro conjI)
qed

text \<open>
  C8. The decode total at the end of the loop is the sum, over the entries that the loop
  processed (the committed ones and the one pushed back, if any), of
  \<open>n + block_size - 1\<close>, where \<open>n\<close> is \<open>min (W - L) M\<close> when \<^verbatim>\<open>window_size\<close> is
  \<open>W\<close> and \<open>M\<close> when it is unset; \<open>L\<close> is the input length and \<open>M\<close> the requested
  \<^verbatim>\<open>max_new_tokens\<close> of the entry. In the witness \<open>W = 10\<close>, \<open>L = 2\<close> and
  \<open>M = 20\<close>: the decode total is 23, computed from \<open>W - L = 8\<close>, and not the 35 that
  \<open>M\<close> would give.
\<close>

theorem next_batch_loop_decode_total:
  assumes "exact_floats block_size window_size entries" and "0 \<le> token_budget"
    and "next_batch_loop max_batch_prefill_tokens token_budget block_size window_size
           entries [] 0 0 = Inr (rest, batch_requests, prefill_tokens, decode_tokens)"
  shows "decode_tokens =
     sum_list (map (\<lambda>e. of_int
       ((case window_size of
           None \<Rightarrow> max_new_tokens (stopping_parameters (request e))
         | Some W \<Rightarrow> min (W - input_length e)
                        (max_new_tokens (stopping_parameters (request e))))
        + block_size - 1))
       (take (if rest = [] then length batch_requests else Suc (length batch_requests))
          entries))"
proof -
  from exact_floats_block_size[OF assms(1)] have b0: "block_size \<noteq> 0" by simp
  from loop_post[OF assms(3)] obtain k where k: "k \<le> length entries"
    "batch_requests = [] @ map request (take k entries)"
    "(rest = [] \<and> prefill_tokens = 0 + total_prefill block_size (take k entries)
                \<and> decode_tokens = 0 + total_decode block_size window_size (take k entries))
     \<or> (rest \<noteq> [] \<and> prefill_tokens = 0 + total_prefill block_size (take (Suc k) entries)
                   \<and> decode_tokens = 0 + total_decode block_size window_size (take (Suc k) entries)
                   \<and> over_budget max_batch_prefill_tokens token_budget prefill_tokens decode_tokens
                   \<and> 0 + total_prefill block_size (take k entries)
                       + (0 + total_decode block_size window_size (take k entries))
                     \<le> of_int token_budget)
     \<or> (rest \<noteq> [] \<and> k = 0 \<and> \<not> (0::rat) + 0 \<le> of_int token_budget
                   \<and> prefill_tokens = 0 \<and> decode_tokens = 0)"
    by blast
  from k(1,2) have len: "length batch_requests = k" by simp
  from k(3) assms(2) have "decode_tokens = total_decode block_size window_size
      (take (if rest = [] then k else Suc k) entries)"
    by auto
  with len show ?thesis by (simp only: total_decode_closed[OF b0])
qed

theorem next_batch_loop_decode_total_witness:
  "exact_floats 16 (Some 10) [entry_of ''ab'' 2 16 22] \<and> (0::int) \<le> 100
   \<and> next_batch_loop 100 100 16 (Some 10) [entry_of ''ab'' 2 16 22] [] 0 0
       = Inr ([], [request (entry_of ''ab'' 2 16 22)], 17, 23)
   \<and> input_length (entry_of ''ab'' 2 16 22) = 2
   \<and> max_new_tokens (stopping_parameters (request (entry_of ''ab'' 2 16 22))) = 20
   \<and> (23::rat) = sum_list (map (\<lambda>e. of_int
         (min (10 - input_length e) (max_new_tokens (stopping_parameters (request e)))
          + 16 - 1)) [entry_of ''ab'' 2 16 22])
   \<and> (23::rat) \<noteq> of_int (20 + 16 - 1)"
proof -
  have h2: "(0::int) \<le> 100" by simp
  from next_batch_loop_decode_total[OF exact_window_entry h2 eval_window_entry]
  have c: "(23::rat) = sum_list (map (\<lambda>e. of_int
         (min (10 - input_length e) (max_new_tokens (stopping_parameters (request e)))
          + 16 - 1)) [entry_of ''ab'' 2 16 22])"
    by simp
  have i: "input_length (entry_of ''ab'' 2 16 22) = 2"
    and m: "max_new_tokens (stopping_parameters (request (entry_of ''ab'' 2 16 22))) = 20"
    by (simp_all add: entry_of_def)
  have n: "(23::rat) \<noteq> of_int (20 + 16 - 1)" by simp
  from exact_window_entry h2 eval_window_entry i m c n show ?thesis by (intro conjI)
qed

text \<open>
  C9, as stated: for every \<^verbatim>\<open>max_input_length\<close> and
  \<^verbatim>\<open>max_batch_prefill_tokens\<close> of at least 1, \<^verbatim>\<open>warmup\<close> synthesizes
  \<open>ceil(max_batch_prefill_tokens / max_input_length)\<close> requests. With
  \<^verbatim>\<open>max_total_tokens = 8\<close> below \<^verbatim>\<open>max_input_length = 16\<close> the first request would
  have \<^verbatim>\<open>max_new_tokens = -8\<close>, and with \<^verbatim>\<open>max_total_tokens = 2^32 + 16\<close> it would
  have \<open>2^32\<close>: the unsigned 32-bit field takes neither, the constructor raises
  \<^verbatim>\<open>ValueError\<close> and no Warmup call is made.
\<close>

theorem warmup_raises_out_of_range:
  "warmup echo_client 16 64 8 () = Some (Inl ValueError)
   \<and> warmup echo_client 16 64 4294967312 () = Some (Inl ValueError)"
  by (simp add: warmup_def warmup_loop.simps[of 16 64 8 0]
      warmup_loop.simps[of 16 64 4294967312 0] new_dummy_request_def uint32_def)

text \<open>
  C9, amended: for \<^verbatim>\<open>max_input_length\<close> and \<^verbatim>\<open>max_batch_prefill_tokens\<close> of at
  least 1, with \<^verbatim>\<open>max_input_length \<le> max_total_tokens < 2^32\<close> and
  \<^verbatim>\<open>max_batch_prefill_tokens < 2^32\<close> (so that \<^verbatim>\<open>max_new_tokens\<close> and \<^verbatim>\<open>size\<close>
  are in the range of their fields), \<^verbatim>\<open>warmup\<close> returns, and the Batch it sends holds
  exactly \<open>ceil(max_batch_prefill_tokens / max_input_length)\<close> requests, the request at
  position \<open>i\<close> (after \<open>i * max_input_length\<close> tokens) with
  \<^verbatim>\<open>max_new_tokens = max_total_tokens - truncate_length\<close>, where \<^verbatim>\<open>truncate_length\<close>
  is the smaller of \<^verbatim>\<open>max_input_length\<close> and what is left of
  \<^verbatim>\<open>max_batch_prefill_tokens\<close>. The witness is the scenario of the specification: 64 and
  16 give 4 requests, each with \<^verbatim>\<open>max_new_tokens = max_total_tokens - 16\<close>.
\<close>

theorem warmup_request_count:
  assumes "1 \<le> max_input_length" and "1 \<le> max_batch_prefill_tokens"
    and "max_input_length \<le> max_total_tokens" and "max_total_tokens < 2 ^ 32"
    and "max_batch_prefill_tokens < 2 ^ 32"
  shows "\<exists>reqs.
      warmup client max_input_length max_batch_prefill_tokens max_total_tokens s =
        Some (Warmup client
                \<lparr>batch_warmup = \<lparr>id_batch = 0, size_batch = int (length reqs),
                                 requests = reqs, max_tokens = 0\<rparr>,
                 max_new_tokens_warmup = max_total_tokens - max_input_length\<rparr> s)
      \<and> int (length reqs)
          = \<lceil>(of_int max_batch_prefill_tokens :: rat) / of_int max_input_length\<rceil>
      \<and> (\<forall>i<length reqs.
            max_new_tokens (stopping_parameters (reqs ! i)) =
              max_total_tokens
              - min max_input_length (max_batch_prefill_tokens - int i * max_input_length))"
proof -
  define k where "k = nat \<lceil>(of_int (max_batch_prefill_tokens - 0) :: rat) / of_int max_input_length\<rceil>"
  define reqs where "reqs = map (\<lambda>i. dummy_request max_input_length max_total_tokens
        (min max_input_length (max_batch_prefill_tokens - (0 + int i * max_input_length)))) [0..<k]"
  from warmup_loop_eq[OF assms(1) assms(3) assms(4) k_def[symmetric], of "[]"]
  have loop: "warmup_loop max_input_length max_batch_prefill_tokens max_total_tokens 0 []
                = Some (Inr reqs)"
    by (simp add: reqs_def)
  note cnt = warmup_count_bound[OF assms(1) assms(2)]
  from cnt(1) have len: "int (length reqs)
      = \<lceil>(of_int max_batch_prefill_tokens :: rat) / of_int max_input_length\<rceil>"
    by (simp add: reqs_def k_def)
  have nth: "\<forall>i<length reqs.
            max_new_tokens (stopping_parameters (reqs ! i)) =
              max_total_tokens
              - min max_input_length (max_batch_prefill_tokens - int i * max_input_length)"
    by (simp add: reqs_def dummy_request_def)
  from len cnt(2) assms(5) have "int (length reqs) < 2 ^ 32" by linarith
  then have size: "uint32 (int (length reqs))" by (simp add: uint32_def)
  have b: "Batch \<lparr>id_kw = 0, size_kw = int (length reqs), requests_kw = reqs,
                  max_tokens_kw = PyInt 0\<rparr>
           = Inr \<lparr>id_batch = 0, size_batch = int (length reqs), requests = reqs, max_tokens = 0\<rparr>"
    using size by (simp add: Batch_def uint64_def uint32_def)
  from assms(1,3,4) have "uint32 (max_total_tokens - max_input_length)"
    unfolding uint32_def by linarith
  then have w: "WarmupRequest \<lparr>id_batch = 0, size_batch = int (length reqs), requests = reqs,
                               max_tokens = 0\<rparr> (max_total_tokens - max_input_length)
      = Inr \<lparr>batch_warmup = \<lparr>id_batch = 0, size_batch = int (length reqs),
                                requests = reqs, max_tokens = 0\<rparr>,
             max_new_tokens_warmup = max_total_tokens - max_input_length\<rparr>"
    by (simp add: WarmupRequest_def)
  from loop b w have "warmup client max_input_length max_batch_prefill_tokens max_total_tokens s =
        Some (Warmup client
                \<lparr>batch_warmup = \<lparr>id_batch = 0, size_batch = int (length reqs),
                                 requests = reqs, max_tokens = 0\<rparr>,
                 max_new_tokens_warmup = max_total_tokens - max_input_length\<rparr> s)"
    by (simp add: warmup_def)
  with len nth show ?thesis by blast
qed

theorem warmup_request_count_witness:
  "(1::int) \<le> 16 \<and> (1::int) \<le> 64 \<and> (16::int) \<le> 128 \<and> (128::int) < 2 ^ 32
   \<and> (64::int) < 2 ^ 32
   \<and> (\<exists>reqs.
      warmup echo_client 16 64 128 () =
        Some (Warmup echo_client
                \<lparr>batch_warmup = \<lparr>id_batch = 0, size_batch = int (length reqs),
                                 requests = reqs, max_tokens = 0\<rparr>,
                 max_new_tokens_warmup = 128 - 16\<rparr> ())
      \<and> int (length reqs) = 4
      \<and> (\<forall>i<length reqs. max_new_tokens (stopping_parameters (reqs ! i)) = 128 - 16))"
proof -
  have h1: "(1::int) \<le> 16" and h2: "(1::int) \<le> 64" and h3: "(16::int) \<le> 128"
    and h4: "(128::int) < 2 ^ 32" and h5: "(64::int) < 2 ^ 32" by simp_all
  from warmup_request_count[OF h1 h2 h3 h4 h5, of echo_client "()"] obtain reqs where
    w: "warmup echo_client 16 64 128 () =
        Some (Warmup echo_client
                \<lparr>batch_warmup = \<lparr>id_batch = 0, size_batch = int (length reqs),
                                 requests = reqs, max_tokens = 0\<rparr>,
                 max_new_tokens_warmup = 128 - 16\<rparr> ())"
    and len: "int (length reqs) = \<lceil>(of_int 64 :: rat) / of_int 16\<rceil>"
    and nth: "\<forall>i<length reqs. max_new_tokens (stopping_parameters (reqs ! i)) =
              128 - min 16 (64 - int i * 16)"
    by blast
  from len have len4: "int (length reqs) = 4" by simp
  have "\<forall>i<length reqs. max_new_tokens (stopping_parameters (reqs ! i)) = 128 - 16"
  proof (intro allI impI)
    fix i assume i: "i < length reqs"
    with len4 have "int i * 16 \<le> 48" by simp
    then have "min 16 (64 - int i * 16) = 16" by simp
    with nth i show "max_new_tokens (stopping_parameters (reqs ! i)) = 128 - 16" by simp
  qed
  with w len4 have "\<exists>reqs.
      warmup echo_client 16 64 128 () =
        Some (Warmup echo_client
                \<lparr>batch_warmup = \<lparr>id_batch = 0, size_batch = int (length reqs),
                                 requests = reqs, max_tokens = 0\<rparr>,
                 max_new_tokens_warmup = 128 - 16\<rparr> ())
      \<and> int (length reqs) = 4
      \<and> (\<forall>i<length reqs. max_new_tokens (stopping_parameters (reqs ! i)) = 128 - 16)"
    by (intro exI[of _ reqs] conjI)
  with h1 h2 h3 h4 h5 show ?thesis by (intro conjI)
qed

text \<open>
  C10. The claim: every call of \<^verbatim>\<open>next_batch\<close> either returns none with the queue
  unchanged or returns a Batch with the requests of the first \<open>k\<close> entries, leaving the
  rest of the queue, and no entry is ever dropped. One entry that fits both limits: line
  255 pops it, line 276 commits it, line 283 steps \<^verbatim>\<open>_ID\<close>, and the constructor of
  line 285 raises \<^verbatim>\<open>TypeError\<close>, because the totals of lines 258 and 268 are floats
  and \<^verbatim>\<open>max_tokens\<close> is an integer field. The call returns nothing and the entry is
  gone from the queue.
\<close>

theorem next_batch_drops_committed_entry:
  "create_entry ''a'' 1 16 2 = Inr (entry_of ''a'' 1 16 2)
   \<and> next_batch [entry_of ''a'' 1 16 2] 40 40 16 None 0 = Inl (TypeError, [], 1)"
  by (simp add: next_batch_def next_batch_kwargs_def loop_step prefill_cost_def decode_cost_def
      block_cost_def effective_max_new_tokens_def over_budget_def entry_of_def create_entry_def
      uint32_def uint64_def Batch_def)

end
